theory Spec2Isabelle
  imports Main "HOL-Library.Word" "HOL-Library.Char_ord" "HOL-Library.List_Lexorder"
    "HOL-Library.Multiset"
begin

unbundle bit_operations_syntax

section \<open>SHA-256 (hashlib.sha256), after FIPS 180-4\<close>

text \<open>
  The program hashes with \<^verbatim>\<open>hashlib.sha256(bytes).hexdigest()\<close>. The digest is computed
  here on 32-bit words; additions wrap around, as the standard prescribes. The round
  constants and the initial hash value are written in decimal.
\<close>

type_synonym byte = "8 word"
type_synonym u32 = "32 word"

definition rotr :: "nat \<Rightarrow> u32 \<Rightarrow> u32" where
  "rotr n x = drop_bit n x OR push_bit (32 - n) x"

definition ch :: "u32 \<Rightarrow> u32 \<Rightarrow> u32 \<Rightarrow> u32" where
  "ch x y z = (x AND y) XOR (NOT x AND z)"

definition maj :: "u32 \<Rightarrow> u32 \<Rightarrow> u32 \<Rightarrow> u32" where
  "maj x y z = (x AND y) XOR (x AND z) XOR (y AND z)"

definition bsig0 :: "u32 \<Rightarrow> u32" where
  "bsig0 x = rotr 2 x XOR rotr 13 x XOR rotr 22 x"

definition bsig1 :: "u32 \<Rightarrow> u32" where
  "bsig1 x = rotr 6 x XOR rotr 11 x XOR rotr 25 x"

definition ssig0 :: "u32 \<Rightarrow> u32" where
  "ssig0 x = rotr 7 x XOR rotr 18 x XOR drop_bit 3 x"

definition ssig1 :: "u32 \<Rightarrow> u32" where
  "ssig1 x = rotr 17 x XOR rotr 19 x XOR drop_bit 10 x"

definition sha256_k :: "u32 list" where
  "sha256_k =
    [1116352408, 1899447441, 3049323471, 3921009573, 961987163, 1508970993, 2453635748, 2870763221,
     3624381080, 310598401, 607225278, 1426881987, 1925078388, 2162078206, 2614888103, 3248222580,
     3835390401, 4022224774, 264347078, 604807628, 770255983, 1249150122, 1555081692, 1996064986,
     2554220882, 2821834349, 2952996808, 3210313671, 3336571891, 3584528711, 113926993, 338241895,
     666307205, 773529912, 1294757372, 1396182291, 1695183700, 1986661051, 2177026350, 2456956037,
     2730485921, 2820302411, 3259730800, 3345764771, 3516065817, 3600352804, 4094571909, 275423344,
     430227734, 506948616, 659060556, 883997877, 958139571, 1322822218, 1537002063, 1747873779,
     1955562222, 2024104815, 2227730452, 2361852424, 2428436474, 2756734187, 3204031479, 3329325298]"

type_synonym hstate = "u32 \<times> u32 \<times> u32 \<times> u32 \<times> u32 \<times> u32 \<times> u32 \<times> u32"

definition sha256_h0 :: hstate where
  "sha256_h0 = (1779033703, 3144134277, 1013904242, 2773480762,
                1359893119, 2600822924, 528734635, 1541459225)"

text \<open>The message length in bits, as eight bytes, most significant first.\<close>

definition length_bytes :: "nat \<Rightarrow> byte list" where
  "length_bytes l =
     (let n = (of_nat (8 * l) :: 64 word)
      in map (\<lambda>i. ucast (drop_bit (8 * (7 - i)) n)) [0..<8])"

text \<open>Padding: the byte 0x80, zero bytes up to 56 modulo 64, then the length.\<close>

definition pad :: "byte list \<Rightarrow> byte list" where
  "pad m =
     (let l = length m
      in m @ [0x80] @ replicate ((119 - l mod 64) mod 64) 0 @ length_bytes l)"

definition be32 :: "byte list \<Rightarrow> u32" where
  "be32 bs = foldl (\<lambda>acc b. push_bit 8 acc OR ucast b) 0 bs"

definition block_words :: "byte list \<Rightarrow> u32 list" where
  "block_words blk = map (\<lambda>i. be32 (take 4 (drop (4 * i) blk))) [0..<16]"

text \<open>The message schedule: \<open>extend 48\<close> takes the 16 words of a block to the 64 of its schedule.\<close>

fun extend :: "nat \<Rightarrow> u32 list \<Rightarrow> u32 list" where
  "extend 0 w = w"
| "extend (Suc n) w =
     (let t = length w
      in extend n (w @ [ssig1 (w ! (t - 2)) + w ! (t - 7) + ssig0 (w ! (t - 15)) + w ! (t - 16)]))"

definition sha_round :: "hstate \<Rightarrow> u32 \<times> u32 \<Rightarrow> hstate" where
  "sha_round s kw =
     (case s of (a, b, c, d, e, f, g, h) \<Rightarrow>
        (let t1 = h + bsig1 e + ch e f g + fst kw + snd kw;
             t2 = bsig0 a + maj a b c
         in (t1 + t2, a, b, c, d + t1, e, f, g)))"

definition compress :: "hstate \<Rightarrow> byte list \<Rightarrow> hstate" where
  "compress s blk =
     (case s of (a, b, c, d, e, f, g, h) \<Rightarrow>
        (case foldl sha_round s (zip sha256_k (extend 48 (block_words blk))) of
           (a', b', c', d', e', f', g', h') \<Rightarrow>
             (a + a', b + b', c + c', d + d', e + e', f + f', g + g', h + h')))"

definition blocks :: "byte list \<Rightarrow> byte list list" where
  "blocks bs = map (\<lambda>i. take 64 (drop (64 * i) bs)) [0..<length bs div 64]"

definition word_bytes :: "u32 \<Rightarrow> byte list" where
  "word_bytes w = [ucast (drop_bit 24 w), ucast (drop_bit 16 w), ucast (drop_bit 8 w), ucast w]"

definition sha256 :: "byte list \<Rightarrow> byte list" where
  "sha256 m =
     (case foldl compress sha256_h0 (blocks (pad m)) of
        (a, b, c, d, e, f, g, h) \<Rightarrow> concat (map word_bytes [a, b, c, d, e, f, g, h]))"

text \<open>\<^verbatim>\<open>.hexdigest()\<close>: two lowercase hexadecimal digits for each byte.\<close>

definition hex_digit :: "nat \<Rightarrow> char" where
  "hex_digit n = ''0123456789abcdef'' ! n"

definition lower_hex :: "char \<Rightarrow> bool" where
  "lower_hex c = (c \<in> set ''0123456789abcdef'')"

definition hex_byte :: "byte \<Rightarrow> string" where
  "hex_byte b = [hex_digit (unat b div 16), hex_digit (unat b mod 16)]"

definition hexdigest :: "byte list \<Rightarrow> string" where
  "hexdigest bs = concat (map hex_byte bs)"

section \<open>Python strings and their encodings\<close>

text \<open>
  A Python \<^verbatim>\<open>str\<close> is an Isabelle \<open>string\<close>: a sequence of characters with code points
  below 256. \<^verbatim>\<open>str.encode()\<close> is UTF-8: one byte below 128, two bytes from 128 to 255.
\<close>

definition utf8_char :: "char \<Rightarrow> byte list" where
  "utf8_char c =
     (let n = (of_char c :: nat)
      in if n < 128 then [of_nat n]
         else [of_nat (192 + n div 64), of_nat (128 + n mod 64)])"

definition encode :: "string \<Rightarrow> byte list" where
  "encode s = concat (map utf8_char s)"

text \<open>\<^verbatim>\<open>str(n)\<close> for an integer: its decimal digits, after a minus sign if it is negative.\<close>

definition digit_char :: "nat \<Rightarrow> char" where
  "digit_char n = char_of (48 + n)"

fun str_nat :: "nat \<Rightarrow> string" where
  "str_nat n = (if n < 10 then [digit_char n] else str_nat (n div 10) @ [digit_char (n mod 10)])"

declare str_nat.simps [simp del]

definition str_int :: "int \<Rightarrow> string" where
  "str_int i = (if i < 0 then CHR ''-'' # str_nat (nat (- i)) else str_nat (nat i))"

section \<open>Python objects and json.dumps\<close>

text \<open>
  A float is carried as the text that \<^verbatim>\<open>float.__repr__\<close> prints for it: this is what
  \<^verbatim>\<open>json.dumps\<close> writes for a finite float, and the only thing the program does with the
  reading of \<^verbatim>\<open>time()\<close>. The three floats that are not finite print as \<^verbatim>\<open>nan\<close>,
  \<^verbatim>\<open>inf\<close> and \<^verbatim>\<open>-inf\<close>.
\<close>

datatype pyfloat = Float_repr string

text \<open>
  The objects that \<^verbatim>\<open>json.dumps\<close> accepts. A dict is the list of its items in insertion
  order; its keys are strings.
\<close>

datatype pyobj =
    PNone
  | PBool bool
  | PInt int
  | PFloat pyfloat
  | PStr string
  | PList "pyobj list"
  | PDict "(string \<times> pyobj) list"

text \<open>
  String literals of \<^verbatim>\<open>json.dumps\<close> with its default \<^verbatim>\<open>ensure_ascii=True\<close>: the characters
  from space to tilde stand for themselves, except the double quote and the backslash;
  backspace, form feed, newline, carriage return and tab have two-letter escapes; every
  other character is written \<^verbatim>\<open>\u00XX\<close>.
\<close>

definition escape_char :: "char \<Rightarrow> string" where
  "escape_char c =
     (if c = CHR 0x22 then [CHR 0x5C, CHR 0x22]
      else if c = CHR 0x5C then [CHR 0x5C, CHR 0x5C]
      else if c = CHR 0x0A then [CHR 0x5C, CHR ''n'']
      else if c = CHR 0x0D then [CHR 0x5C, CHR ''r'']
      else if c = CHR 0x09 then [CHR 0x5C, CHR ''t'']
      else if c = CHR 0x08 then [CHR 0x5C, CHR ''b'']
      else if c = CHR 0x0C then [CHR 0x5C, CHR ''f'']
      else if 32 \<le> (of_char c :: nat) \<and> (of_char c :: nat) \<le> 126 then [c]
      else [CHR 0x5C, CHR ''u'', CHR ''0'', CHR ''0'',
            hex_digit ((of_char c :: nat) div 16), hex_digit ((of_char c :: nat) mod 16)])"

definition encode_basestring_ascii :: "string \<Rightarrow> string" where
  "encode_basestring_ascii s = [CHR 0x22] @ concat (map escape_char s) @ [CHR 0x22]"

fun join :: "string \<Rightarrow> string list \<Rightarrow> string" where
  "join sep [] = []"
| "join sep [x] = x"
| "join sep (x # y # ys) = x @ sep @ join sep (y # ys)"

definition float_repr :: "pyfloat \<Rightarrow> string" where
  "float_repr f = (case f of Float_repr r \<Rightarrow> r)"

text \<open>
  A float in \<^verbatim>\<open>json.dumps\<close> (with the default \<^verbatim>\<open>allow_nan=True\<close>): its \<^verbatim>\<open>repr\<close>, but
  \<^verbatim>\<open>NaN\<close>, \<^verbatim>\<open>Infinity\<close> and \<^verbatim>\<open>-Infinity\<close> for the three floats that are not finite.
\<close>

definition float_json :: "pyfloat \<Rightarrow> string" where
  "float_json f =
     (if float_repr f = ''nan'' then ''NaN''
      else if float_repr f = ''inf'' then ''Infinity''
      else if float_repr f = ''-inf'' then ''-Infinity''
      else float_repr f)"

text \<open>
  \<^verbatim>\<open>json.dumps(obj, sort_keys=True)\<close> with the default separators \<^verbatim>\<open>', '\<close> and \<^verbatim>\<open>': '\<close>.
  The items of a dict are written in the order of their keys, strings being compared
  character by character.
\<close>

fun dumps :: "pyobj \<Rightarrow> string" where
  "dumps PNone = ''null''"
| "dumps (PBool b) = (if b then ''true'' else ''false'')"
| "dumps (PInt i) = str_int i"
| "dumps (PFloat f) = float_json f"
| "dumps (PStr s) = encode_basestring_ascii s"
| "dumps (PList xs) = ''['' @ join '', '' (map dumps xs) @ '']''"
| "dumps (PDict kvs) =
     ''{'' @ join '', '' (map (\<lambda>kv. encode_basestring_ascii (fst kv) @ '': '' @ dumps (snd kv))
                              (sort_key fst kvs)) @ ''}''"

section \<open>str and repr\<close>

text \<open>
  \<^verbatim>\<open>repr\<close> of a string: between single quotes, or between double quotes when the string
  has a single quote and no double quote. The quote and the backslash are escaped with
  a backslash; tab, newline and carriage return have two-letter escapes; the other
  characters that are not printable are written \<^verbatim>\<open>\xXX\<close>. Below 256 the printable
  characters are those from space to tilde and those from 161 on, except 173.
\<close>

definition printable :: "char \<Rightarrow> bool" where
  "printable c =
     (let n = (of_char c :: nat)
      in if n < 32 then False
         else if n \<le> 126 then True
         else if n < 161 then False
         else if n = 173 then False
         else True)"

definition repr_char :: "char \<Rightarrow> char \<Rightarrow> string" where
  "repr_char quote c =
     (if c = quote then [CHR 0x5C, c]
      else if c = CHR 0x5C then [CHR 0x5C, c]
      else if c = CHR 0x09 then [CHR 0x5C, CHR ''t'']
      else if c = CHR 0x0A then [CHR 0x5C, CHR ''n'']
      else if c = CHR 0x0D then [CHR 0x5C, CHR ''r'']
      else if printable c then [c]
      else [CHR 0x5C, CHR ''x'',
            hex_digit ((of_char c :: nat) div 16), hex_digit ((of_char c :: nat) mod 16)])"

definition repr_str :: "string \<Rightarrow> string" where
  "repr_str s =
     (let quote = (if CHR 0x22 \<in> set s then CHR 0x27
                   else if CHR 0x27 \<in> set s then CHR 0x22
                   else CHR 0x27)
      in [quote] @ concat (map (repr_char quote) s) @ [quote])"

text \<open>\<^verbatim>\<open>repr\<close> of an object; the items of a dict come in insertion order.\<close>

fun py_repr :: "pyobj \<Rightarrow> string" where
  "py_repr PNone = ''None''"
| "py_repr (PBool b) = (if b then ''True'' else ''False'')"
| "py_repr (PInt i) = str_int i"
| "py_repr (PFloat f) = float_repr f"
| "py_repr (PStr s) = repr_str s"
| "py_repr (PList xs) = ''['' @ join '', '' (map py_repr xs) @ '']''"
| "py_repr (PDict kvs) =
     ''{'' @ join '', '' (map (\<lambda>kv. repr_str (fst kv) @ '': '' @ py_repr (snd kv)) kvs) @ ''}''"

text \<open>
  \<^verbatim>\<open>str\<close> of an object, which is what an f-string writes for \<^verbatim>\<open>{x}\<close>: a string is
  itself, every other object is its \<^verbatim>\<open>repr\<close>.
\<close>

definition py_str :: "pyobj \<Rightarrow> string" where
  "py_str x = (case x of PStr s \<Rightarrow> s | _ \<Rightarrow> py_repr x)"

section \<open>The ledger (class Blockchain)\<close>

text \<open>
  A transaction and a block are dicts with fixed keys; they are records here, and
  \<open>transaction_dict\<close> and \<open>block_dict\<close> give the dicts, with the items in the order in which
  the source's dict displays list them.
\<close>

record transaction =
  sender :: pyobj
  recipient :: pyobj
  amount :: pyobj

record block =
  index :: int
  proof_of :: pyobj
  timestamp :: pyfloat
  transactions :: "transaction list"
  previous_hash :: pyobj

definition transaction_dict :: "transaction \<Rightarrow> pyobj" where
  "transaction_dict t =
     PDict [(''sender'', sender t), (''recipient'', recipient t), (''amount'', amount t)]"

definition block_dict :: "block \<Rightarrow> pyobj" where
  "block_dict b =
     PDict [(''index'', PInt (index b)),
            (''proof'', proof_of b),
            (''timestamp'', PFloat (timestamp b)),
            (''transactions'', PList (map transaction_dict (transactions b))),
            (''previous_hash'', previous_hash b)]"

record blockchain =
  chain :: "block list"
  current_transactions :: "transaction list"

text \<open>
  \<open>new_block\<close>: the argument \<open>now\<close> is the reading of \<^verbatim>\<open>time()\<close>; the optional argument
  \<^verbatim>\<open>previous_hash\<close> is \<open>None\<close> when the caller leaves it out, and Python then binds it to
  its default, the object \<^verbatim>\<open>None\<close>. The block takes the list of pending transactions and
  the ledger gets a new, empty list; the list inside the block is never changed again.
  The result is the new block and the ledger after the call.
\<close>

definition new_block :: "pyfloat \<Rightarrow> pyobj \<Rightarrow> pyobj option \<Rightarrow> blockchain \<Rightarrow> block \<times> blockchain" where
  "new_block now prf prev self =
     (let blk = \<lparr>index = int (length (chain self)) + 1,
                 proof_of = prf,
                 timestamp = now,
                 transactions = current_transactions self,
                 previous_hash = (case prev of None \<Rightarrow> PNone | Some h \<Rightarrow> h)\<rparr>
      in (blk, self\<lparr>current_transactions := [], chain := chain self @ [blk]\<rparr>))"

text \<open>\<^verbatim>\<open>Blockchain()\<close>: two empty lists, then the genesis block.\<close>

definition Blockchain :: "pyfloat \<Rightarrow> blockchain" where
  "Blockchain now =
     snd (new_block now (PInt 100) (Some (PInt 1)) \<lparr>chain = [], current_transactions = []\<rparr>)"

text \<open>\<^verbatim>\<open>Blockchain.hash\<close>.\<close>

definition hash :: "pyobj \<Rightarrow> string" where
  "hash blk = hexdigest (sha256 (encode (dumps blk)))"

datatype error = IndexError | KeyError | TypeError

text \<open>\<^verbatim>\<open>last_block\<close>: \<^verbatim>\<open>self.chain[-1]\<close> raises \<^verbatim>\<open>IndexError\<close> on an empty chain.\<close>

definition last_block :: "blockchain \<Rightarrow> error + block" where
  "last_block self = (if chain self = [] then Inl IndexError else Inr (last (chain self)))"

text \<open>
  \<open>valid_proof\<close>: the f-string writes the proof as \<^verbatim>\<open>str\<close> does; for an integer these are
  its decimal digits.
\<close>

definition valid_proof :: "string \<Rightarrow> pyobj \<Rightarrow> bool" where
  "valid_proof block_string prf =
     (let guess = encode (block_string @ py_str prf);
          guess_hash = hexdigest (sha256 guess)
      in take 6 guess_hash = ''000000'')"

text \<open>
  \<open>new_transaction\<close>: the append comes first, so it stays done when \<open>last_block\<close> raises.
\<close>

definition new_transaction ::
  "pyobj \<Rightarrow> pyobj \<Rightarrow> pyobj \<Rightarrow> blockchain \<Rightarrow> (error + int) \<times> blockchain" where
  "new_transaction s r a self =
     (let self' = self\<lparr>current_transactions :=
                         current_transactions self @ [\<lparr>sender = s, recipient = r, amount = a\<rparr>]\<rparr>
      in (case last_block self' of
            Inl e \<Rightarrow> (Inl e, self')
          | Inr b \<Rightarrow> (Inr (index b + 1), self')))"

section \<open>The mine endpoint\<close>

text \<open>
  The body of a request, \<open>data\<close>, is what \<^verbatim>\<open>request.get_json()\<close> returns: any JSON value,
  \<^verbatim>\<open>None\<close> for \<^verbatim>\<open>null\<close>.

  \<^verbatim>\<open>k in data\<close> for a string \<open>k\<close>: a key of a dict, an element of a list, a substring of a
  string; on any other object Python raises \<^verbatim>\<open>TypeError\<close>.
\<close>

fun startswith :: "string \<Rightarrow> string \<Rightarrow> bool" where
  "startswith s [] = True"
| "startswith [] (k # ks) = False"
| "startswith (c # cs) (k # ks) = (c = k \<and> startswith cs ks)"

fun substring :: "string \<Rightarrow> string \<Rightarrow> bool" where
  "substring k [] = (k = [])"
| "substring k (c # cs) = (if startswith (c # cs) k then True else substring k cs)"

fun contains :: "pyobj \<Rightarrow> string \<Rightarrow> error + bool" where
  "contains (PDict kvs) k = Inr (k \<in> set (map fst kvs))"
| "contains (PList xs) k = Inr (PStr k \<in> set xs)"
| "contains (PStr s) k = Inr (substring k s)"
| "contains PNone k = Inl TypeError"
| "contains (PBool b) k = Inl TypeError"
| "contains (PInt i) k = Inl TypeError"
| "contains (PFloat f) k = Inl TypeError"

text \<open>
  \<^verbatim>\<open>all(k in data for k in ks)\<close>: the names are tried in order, up to the first that is
  not in \<open>data\<close>.
\<close>

fun all_in :: "pyobj \<Rightarrow> string list \<Rightarrow> error + bool" where
  "all_in data [] = Inr True"
| "all_in data (k # ks) =
     (case contains data k of
        Inl e \<Rightarrow> Inl e
      | Inr found \<Rightarrow> (if found then all_in data ks else Inr False))"

text \<open>
  \<^verbatim>\<open>data[k]\<close> for a string \<open>k\<close>: the value at a key of a dict, \<^verbatim>\<open>KeyError\<close> when the dict
  lacks it; a list and a string take no string as index, and the other objects take no
  index at all: \<^verbatim>\<open>TypeError\<close>.
\<close>

fun getitem :: "pyobj \<Rightarrow> string \<Rightarrow> error + pyobj" where
  "getitem (PDict kvs) k = (case map_of kvs k of None \<Rightarrow> Inl KeyError | Some v \<Rightarrow> Inr v)"
| "getitem (PList xs) k = Inl TypeError"
| "getitem (PStr s) k = Inl TypeError"
| "getitem PNone k = Inl TypeError"
| "getitem (PBool b) k = Inl TypeError"
| "getitem (PInt i) k = Inl TypeError"
| "getitem (PFloat f) k = Inl TypeError"

text \<open>What the endpoint returns: the dict given to \<^verbatim>\<open>jsonify\<close> and the status code.\<close>

type_synonym response = "pyobj \<times> nat"

text \<open>
  \<open>mine\<close>: \<open>now\<close> is the reading of \<^verbatim>\<open>time()\<close> that \<open>new_block\<close> takes. The statements come
  in the order of the source: the check of the fields, \<^verbatim>\<open>data['proof']\<close>, the last
  block, \<open>valid_proof\<close>, \<^verbatim>\<open>data["id"]\<close>, then the two branches. An exception ends the
  request and leaves the ledger as it is at that point. The source reads
  \<^verbatim>\<open>blockchain.last_block\<close> twice, with nothing changed in between; it is read once here.
\<close>

definition mine :: "pyfloat \<Rightarrow> pyobj \<Rightarrow> blockchain \<Rightarrow> (error + response) \<times> blockchain" where
  "mine now data self =
     (case all_in data [''proof'', ''id''] of
        Inl e \<Rightarrow> (Inl e, self)
      | Inr has_fields \<Rightarrow>
          (if has_fields then
             (case getitem data ''proof'' of
                Inl e \<Rightarrow> (Inl e, self)
              | Inr proof_sent \<Rightarrow>
                  (case last_block self of
                     Inl e \<Rightarrow> (Inl e, self)
                   | Inr lb \<Rightarrow>
                       (let is_proof_valid = valid_proof (dumps (block_dict lb)) proof_sent
                        in (case getitem data ''id'' of
                              Inl e \<Rightarrow> (Inl e, self)
                            | Inr recipient_id \<Rightarrow>
                                (if is_proof_valid then
                                   (case new_block now proof_sent
                                           (Some (PStr (hash (block_dict lb)))) self of
                                      (new_blk, self1) \<Rightarrow>
                                        (case new_transaction (PStr ''0'') recipient_id (PInt 1)
                                                self1 of
                                           (Inl e, self2) \<Rightarrow> (Inl e, self2)
                                         | (Inr n, self2) \<Rightarrow>
                                             (Inr (PDict
                                                [(''message'',
                                                    PStr ''Congratulation! New block is found''),
                                                 (''index'', PInt (index new_blk)),
                                                 (''transactions'',
                                                    PList (map transaction_dict
                                                             (transactions new_blk))),
                                                 (''proof'', proof_of new_blk),
                                                 (''previous_hash'', previous_hash new_blk)],
                                               200),
                                              self2)))
                                 else
                                   (Inr (PDict [(''message'',
                                                 PStr ''Invalid Proof. Unsuccessful Try again.'')],
                                         200),
                                    self))))))
           else (Inr (PDict [(''message'', PStr ''Missing required fields.'')], 400), self)))"

section \<open>Sequences of operations\<close>

text \<open>The operations that change a ledger, and a ledger after a sequence of them.\<close>

datatype operation =
    New_block pyfloat pyobj "pyobj option"
  | New_transaction pyobj pyobj pyobj
  | Mine pyfloat pyobj

fun step :: "blockchain \<Rightarrow> operation \<Rightarrow> blockchain" where
  "step self (New_block now prf prev) = snd (new_block now prf prev self)"
| "step self (New_transaction s r a) = snd (new_transaction s r a self)"
| "step self (Mine now data) = snd (mine now data self)"

definition run :: "operation list \<Rightarrow> blockchain \<Rightarrow> blockchain" where
  "run ops self = foldl step self ops"

text \<open>The indices of a chain count its blocks from 1.\<close>

definition indexed :: "block list \<Rightarrow> bool" where
  "indexed bs = (map index bs = map int [1..<Suc (length bs)])"

text \<open>Every block but the first holds the hash of the block before it.\<close>

fun linked :: "block list \<Rightarrow> bool" where
  "linked [] = True"
| "linked [b] = True"
| "linked (a # b # bs) = (previous_hash b = PStr (hash (block_dict a)) \<and> linked (b # bs))"

section \<open>Genesis\<close>

text \<open>
  C4. A freshly constructed ledger has exactly one block; its index is 1, its list of
  transactions is empty, and its previous_hash is the integer 1, which is not a string.
\<close>

theorem genesis_block:
  "length (chain (Blockchain now)) = 1
   \<and> index (hd (chain (Blockchain now))) = 1
   \<and> transactions (hd (chain (Blockchain now))) = []
   \<and> previous_hash (hd (chain (Blockchain now))) = PInt 1
   \<and> (\<forall>s. previous_hash (hd (chain (Blockchain now))) \<noteq> PStr s)"
  by (simp add: Blockchain_def new_block_def Let_def)

section \<open>The digest\<close>

lemma length_sha256: "length (sha256 m) = 32"
  by (simp add: sha256_def word_bytes_def split: prod.splits)

lemma length_hexdigest: "length (hexdigest bs) = 2 * length bs"
  by (induction bs) (simp_all add: hexdigest_def hex_byte_def)

lemma length_hexdigest_sha256: "length (hexdigest (sha256 m)) = 64"
  by (simp add: length_hexdigest length_sha256)

lemma hex_digit_lower: "n < 16 \<Longrightarrow> lower_hex (hex_digit n)"
  unfolding hex_digit_def lower_hex_def by (rule nth_mem) simp

lemma hex_byte_lower: "list_all lower_hex (hex_byte b)"
proof -
  have "unat b < 256"
    using unsigned_less [of b, where ?'a = nat] by simp
  then have "unat b div 16 < 16" and "unat b mod 16 < 16"
    by simp_all
  then show ?thesis
    unfolding hex_byte_def using hex_digit_lower by simp
qed

lemma hexdigest_lower: "list_all lower_hex (hexdigest bs)"
  by (induction bs) (simp_all add: hexdigest_def hex_byte_lower)

section \<open>The proof-of-work predicate\<close>

lemma six_zeros: "''000000'' = replicate 6 (CHR ''0'')"
  by (simp add: eval_nat_numeral)

lemma replicate_iff_list_all:
  "length xs = n \<Longrightarrow> xs = replicate n c \<longleftrightarrow> list_all (\<lambda>x. x = c) xs"
  by (induction xs arbitrary: n) auto

lemma py_str_int: "py_str (PInt p) = str_int p"
  by (simp add: py_str_def)

text \<open>
  C1. For every string \<open>s\<close> and every integer \<open>p\<close>, \<open>valid_proof\<close> of \<open>s\<close> and \<open>p\<close> is true exactly when
  each of the first six characters of the lowercase hexadecimal SHA-256 digest of the
  bytes of \<open>s\<close> followed, with no separator, by the decimal form of \<open>p\<close> is the digit 0.
\<close>

theorem valid_proof_iff:
  "valid_proof s (PInt p) \<longleftrightarrow>
     list_all (\<lambda>c. c = CHR ''0'') (take 6 (hexdigest (sha256 (encode (s @ str_int p)))))"
proof -
  let ?h = "hexdigest (sha256 (encode (s @ str_int p)))"
  have "length (take 6 ?h) = 6"
    by (simp add: length_hexdigest_sha256)
  then have "take 6 ?h = replicate 6 (CHR ''0'') \<longleftrightarrow> list_all (\<lambda>c. c = CHR ''0'') (take 6 ?h)"
    by (rule replicate_iff_list_all)
  then show ?thesis
    by (simp only: valid_proof_def Let_def six_zeros py_str_int)
qed

section \<open>The hash of a block\<close>

lemma filter_key_single:
  "distinct (map fst xs) \<Longrightarrow> k \<in> set xs \<Longrightarrow> filter (\<lambda>x. fst k = fst x) xs = [k]"
proof (induction xs)
  case Nil
  then show ?case by simp
next
  case (Cons x xs)
  show ?case
  proof (cases "k = x")
    case True
    have "fst x \<notin> fst ` set xs"
      using Cons.prems(1) by simp
    then have "\<forall>y\<in>set xs. fst y \<noteq> fst x"
      by (metis imageI)
    then have "filter (\<lambda>y. fst x = fst y) xs = []"
      by (auto simp: filter_empty_conv)
    with True show ?thesis by simp
  next
    case False
    with Cons.prems(2) have k: "k \<in> set xs"
      by simp
    then have "fst k \<in> fst ` set xs"
      by (rule imageI)
    moreover have "fst x \<notin> fst ` set xs"
      using Cons.prems(1) by simp
    ultimately have "fst k \<noteq> fst x"
      by metis
    moreover have "filter (\<lambda>y. fst k = fst y) xs = [k]"
      using Cons.IH Cons.prems(1) k by simp
    ultimately show ?thesis by simp
  qed
qed

text \<open>Two item lists of the same dict are sorted into the same list.\<close>

lemma sort_key_dict:
  assumes "distinct (map fst xs)" and "distinct (map fst ys)" and "map_of ys = map_of xs"
  shows "sort_key fst ys = sort_key fst xs"
proof -
  have set_eq: "set ys = set xs"
    using assms map_of_inject_set by blast
  have "distinct xs" and "distinct ys"
    using assms(1,2) by (simp_all add: distinct_map)
  then have mset_eq: "mset ys = mset xs"
    using set_eq by (simp add: set_eq_iff_mset_eq_distinct)
  let ?zs = "sort_key fst ys"
  have dz: "distinct (map fst ?zs)"
    using assms(2) by (metis distinct_map distinct_sort set_sort inj_on_cong)
  show ?thesis
  proof (rule sym, rule properties_for_sort_key)
    show "mset ?zs = mset xs"
      by (simp add: mset_eq)
    show "sorted (map fst ?zs)"
      by simp
    fix k assume k: "k \<in> set ?zs"
    then have "k \<in> set xs"
      using set_eq by simp
    then have "filter (\<lambda>x. fst k = fst x) xs = [k]"
      using assms(1) by (rule filter_key_single [rotated])
    moreover have "filter (\<lambda>x. fst k = fst x) ?zs = [k]"
      using dz k by (rule filter_key_single)
    ultimately show "filter (\<lambda>x. fst k = fst x) ?zs = filter (\<lambda>x. fst k = fst x) xs"
      by simp
  qed
qed

text \<open>
  C2. \<open>hash\<close> is a function of the block alone: it has no other argument and reads no
  state, so two calls on the same block give the same string. For every object \<open>b\<close>
  the result is the hexadecimal digest of the SHA-256 of the bytes of
  \<^verbatim>\<open>json.dumps(b, sort_keys=True)\<close>, 64 characters long, each a digit or a letter from
  a to f. Two item lists with the same keys and values, whatever the order in which
  the items were inserted, have the same hash.
\<close>

theorem hash_spec:
  assumes "distinct (map fst items)" and "distinct (map fst items')"
    and "map_of items' = map_of items"
  shows "hash (PDict items') = hash (PDict items)
       \<and> hash b = hexdigest (sha256 (encode (dumps b)))
       \<and> length (hash b) = 64
       \<and> list_all lower_hex (hash b)"
proof -
  have "sort_key fst items' = sort_key fst items"
    using assms by (rule sort_key_dict)
  then have "hash (PDict items') = hash (PDict items)"
    by (simp add: hash_def)
  then show ?thesis
    by (simp add: hash_def length_hexdigest_sha256 hexdigest_lower)
qed

theorem hash_spec_witness:
  "hash (PDict [(''previous_hash'', PInt 1), (''transactions'', PList []), (''index'', PInt 1)]) =
     hash (PDict [(''index'', PInt 1), (''transactions'', PList []), (''previous_hash'', PInt 1)])
   \<and> length (hash (PDict [(''index'', PInt 1)])) = 64
   \<and> list_all lower_hex (hash (PDict [(''index'', PInt 1)]))"
proof -
  let ?xs = "[(''index'', PInt 1), (''transactions'', PList []), (''previous_hash'', PInt 1)]"
  let ?ys = "[(''previous_hash'', PInt 1), (''transactions'', PList []), (''index'', PInt 1)]"
  have "distinct (map fst ?xs)" and "distinct (map fst ?ys)"
    by simp_all
  moreover have "map_of ?ys = map_of ?xs"
    by (auto simp: fun_eq_iff)
  ultimately show ?thesis
    using hash_spec [of ?xs ?ys "PDict [(''index'', PInt 1)]"] by blast
qed

section \<open>Creating a block\<close>

text \<open>
  C5. In every ledger state, \<open>new_block\<close> with a proof and a previous hash returns a block
  whose index is the length of the chain plus one, whose transactions are the pending
  transactions as they stood at the call, and whose proof and previous hash are the
  ones supplied. After the call the list of pending transactions is empty and the
  chain is the old chain followed by the returned block.
\<close>

theorem new_block_spec:
  "fst (new_block now prf (Some h) self) =
     \<lparr>index = int (length (chain self)) + 1, proof_of = prf, timestamp = now,
      transactions = current_transactions self, previous_hash = h\<rparr>
   \<and> current_transactions (snd (new_block now prf (Some h) self)) = []
   \<and> chain (snd (new_block now prf (Some h) self)) =
       chain self @ [fst (new_block now prf (Some h) self)]"
  by (simp add: new_block_def Let_def)

text \<open>
  C10. The argument \<^verbatim>\<open>previous_hash\<close> is optional. A call of \<open>new_block\<close> that gives only a
  proof appends and returns a block whose previous hash is \<^verbatim>\<open>None\<close>, which is neither
  a string nor the integer 1 of the genesis block.
\<close>

theorem new_block_default:
  "previous_hash (fst (new_block now prf None self)) = PNone
   \<and> PNone \<noteq> PInt 1 \<and> (\<forall>s. PNone \<noteq> PStr s)
   \<and> last (chain (snd (new_block now prf None self))) = fst (new_block now prf None self)"
  by (simp add: new_block_def Let_def)

section \<open>Queueing a transaction\<close>

text \<open>
  C9. On a ledger with a block in its chain, \<open>new_transaction\<close> appends the transaction
  made of the sender, the recipient and the amount to the end of the pending
  transactions and returns the index of the last block plus one. The chain is as it was.
\<close>

theorem new_transaction_spec:
  "chain self \<noteq> [] \<Longrightarrow>
   new_transaction s r a self =
     (Inr (index (last (chain self)) + 1),
      self\<lparr>current_transactions :=
             current_transactions self @ [\<lparr>sender = s, recipient = r, amount = a\<rparr>]\<rparr>)
   \<and> chain (snd (new_transaction s r a self)) = chain self"
  by (simp add: new_transaction_def last_block_def Let_def)

theorem new_transaction_spec_witness:
  "chain (Blockchain (Float_repr ''1541349283.5'')) \<noteq> []
   \<and> fst (new_transaction (PStr ''alice'') (PStr ''bob'') (PInt 5)
            (Blockchain (Float_repr ''1541349283.5''))) = Inr 2
   \<and> current_transactions
        (snd (new_transaction (PStr ''alice'') (PStr ''bob'') (PInt 5)
               (Blockchain (Float_repr ''1541349283.5'')))) =
       [\<lparr>sender = PStr ''alice'', recipient = PStr ''bob'', amount = PInt 5\<rparr>]
   \<and> length (chain (snd (new_transaction (PStr ''alice'') (PStr ''bob'') (PInt 5)
                       (Blockchain (Float_repr ''1541349283.5''))))) = 1"
proof -
  have ne: "chain (Blockchain (Float_repr ''1541349283.5'')) \<noteq> []"
    by (simp add: Blockchain_def new_block_def Let_def)
  show ?thesis
    using ne new_transaction_spec [OF ne, of "PStr ''alice''" "PStr ''bob''" "PInt 5"]
    by (simp add: Blockchain_def new_block_def Let_def)
qed

section \<open>The mine endpoint, case by case\<close>

lemma all_in_dict:
  "all_in (PDict kvs) [''proof'', ''id''] =
     Inr (map_of kvs ''proof'' \<noteq> None \<and> map_of kvs ''id'' \<noteq> None)"
  by (simp add: map_of_eq_None_iff)

lemma mine_missing:
  "map_of kvs ''proof'' = None \<or> map_of kvs ''id'' = None \<Longrightarrow>
   mine now (PDict kvs) self =
     (Inr (PDict [(''message'', PStr ''Missing required fields.'')], 400), self)"
  unfolding mine_def all_in_dict by auto

lemma mine_empty:
  "map_of kvs ''proof'' = Some p \<Longrightarrow> map_of kvs ''id'' = Some r \<Longrightarrow> chain self = [] \<Longrightarrow>
   mine now (PDict kvs) self = (Inl IndexError, self)"
  unfolding mine_def all_in_dict by (simp add: last_block_def)

lemma mine_invalid:
  "map_of kvs ''proof'' = Some p \<Longrightarrow> map_of kvs ''id'' = Some r \<Longrightarrow> chain self \<noteq> [] \<Longrightarrow>
   \<not> valid_proof (dumps (block_dict (last (chain self)))) p \<Longrightarrow>
   mine now (PDict kvs) self =
     (Inr (PDict [(''message'', PStr ''Invalid Proof. Unsuccessful Try again.'')], 200), self)"
  unfolding mine_def all_in_dict by (simp add: last_block_def)

lemma mine_valid:
  "map_of kvs ''proof'' = Some p \<Longrightarrow> map_of kvs ''id'' = Some r \<Longrightarrow> chain self \<noteq> [] \<Longrightarrow>
   valid_proof (dumps (block_dict (last (chain self)))) p \<Longrightarrow>
   blk = \<lparr>index = int (length (chain self)) + 1, proof_of = p, timestamp = now,
          transactions = current_transactions self,
          previous_hash = PStr (hash (block_dict (last (chain self))))\<rparr> \<Longrightarrow>
   mine now (PDict kvs) self =
     (Inr (PDict [(''message'', PStr ''Congratulation! New block is found''),
                  (''index'', PInt (int (length (chain self)) + 1)),
                  (''transactions'', PList (map transaction_dict (current_transactions self))),
                  (''proof'', p),
                  (''previous_hash'', PStr (hash (block_dict (last (chain self)))))],
           200),
      self\<lparr>current_transactions := [\<lparr>sender = PStr ''0'', recipient = r, amount = PInt 1\<rparr>],
            chain := chain self @ [blk]\<rparr>)"
  unfolding mine_def all_in_dict
  by (simp add: last_block_def new_block_def new_transaction_def Let_def)

text \<open>A body that is not a dict never changes the ledger.\<close>

lemma mine_not_dict:
  "(\<forall>kvs. data \<noteq> PDict kvs) \<Longrightarrow> snd (mine now data self) = self"
  by (cases data) (simp_all add: mine_def split: sum.splits)

lemma chain_mine:
  "chain (snd (mine now data self)) = chain self
   \<or> (chain self \<noteq> [] \<and>
       (\<exists>p. chain (snd (mine now data self)) =
          chain self @ [\<lparr>index = int (length (chain self)) + 1, proof_of = p, timestamp = now,
                          transactions = current_transactions self,
                          previous_hash = PStr (hash (block_dict (last (chain self))))\<rparr>]))"
proof (cases "\<exists>kvs. data = PDict kvs")
  case False
  then show ?thesis by (simp add: mine_not_dict)
next
  case True
  then obtain kvs where data: "data = PDict kvs" by blast
  show ?thesis
  proof (cases "map_of kvs ''proof''")
    case None
    then show ?thesis by (simp add: data mine_missing)
  next
    case (Some p)
    note p = this
    show ?thesis
    proof (cases "map_of kvs ''id''")
      case None
      then show ?thesis by (simp add: data mine_missing)
    next
      case (Some r)
      show ?thesis
      proof (cases "chain self = []")
        case True
        with p Some show ?thesis by (simp add: data mine_empty)
      next
        case False
        show ?thesis
        proof (cases "valid_proof (dumps (block_dict (last (chain self)))) p")
          case True
          from mine_valid [OF p Some False True refl, of now]
          show ?thesis using False by (simp add: data)
        next
          case False
          with p Some \<open>chain self \<noteq> []\<close> show ?thesis by (simp add: data mine_invalid)
        qed
      qed
    qed
  qed
qed

section \<open>A mined block\<close>

text \<open>
  A ledger constructed at the clock reading 1541349283.5, and two proofs submitted
  against its genesis block: 1349035, which is valid, and 0, which is not.
\<close>

lemma Blockchain_eval:
  "Blockchain now =
     \<lparr>chain = [\<lparr>index = 1, proof_of = PInt 100, timestamp = now, transactions = [],
                 previous_hash = PInt 1\<rparr>],
      current_transactions = []\<rparr>"
  by (simp add: Blockchain_def new_block_def Let_def)

lemma guess_bytes_1349035:
  "encode (dumps (block_dict (last (chain (Blockchain (Float_repr ''1541349283.5''))))) @ py_str (PInt 1349035)) =
     [0x7b, 0x22, 0x69, 0x6e, 0x64, 0x65, 0x78, 0x22, 0x3a, 0x20, 0x31, 0x2c, 0x20, 0x22, 0x70, 0x72,
      0x65, 0x76, 0x69, 0x6f, 0x75, 0x73, 0x5f, 0x68, 0x61, 0x73, 0x68, 0x22, 0x3a, 0x20, 0x31, 0x2c,
      0x20, 0x22, 0x70, 0x72, 0x6f, 0x6f, 0x66, 0x22, 0x3a, 0x20, 0x31, 0x30, 0x30, 0x2c, 0x20, 0x22,
      0x74, 0x69, 0x6d, 0x65, 0x73, 0x74, 0x61, 0x6d, 0x70, 0x22, 0x3a, 0x20, 0x31, 0x35, 0x34, 0x31,
      0x33, 0x34, 0x39, 0x32, 0x38, 0x33, 0x2e, 0x35, 0x2c, 0x20, 0x22, 0x74, 0x72, 0x61, 0x6e, 0x73,
      0x61, 0x63, 0x74, 0x69, 0x6f, 0x6e, 0x73, 0x22, 0x3a, 0x20, 0x5b, 0x5d, 0x7d, 0x31, 0x33, 0x34,
      0x39, 0x30, 0x33, 0x35]"
  by (simp add: Blockchain_def new_block_def Let_def block_dict_def encode_basestring_ascii_def escape_char_def float_json_def float_repr_def py_str_def str_int_def str_nat.simps digit_char_def encode_def utf8_char_def)

lemma guess_bytes_0:
  "encode (dumps (block_dict (last (chain (Blockchain (Float_repr ''1541349283.5''))))) @ py_str (PInt 0)) =
     [0x7b, 0x22, 0x69, 0x6e, 0x64, 0x65, 0x78, 0x22, 0x3a, 0x20, 0x31, 0x2c, 0x20, 0x22, 0x70, 0x72,
      0x65, 0x76, 0x69, 0x6f, 0x75, 0x73, 0x5f, 0x68, 0x61, 0x73, 0x68, 0x22, 0x3a, 0x20, 0x31, 0x2c,
      0x20, 0x22, 0x70, 0x72, 0x6f, 0x6f, 0x66, 0x22, 0x3a, 0x20, 0x31, 0x30, 0x30, 0x2c, 0x20, 0x22,
      0x74, 0x69, 0x6d, 0x65, 0x73, 0x74, 0x61, 0x6d, 0x70, 0x22, 0x3a, 0x20, 0x31, 0x35, 0x34, 0x31,
      0x33, 0x34, 0x39, 0x32, 0x38, 0x33, 0x2e, 0x35, 0x2c, 0x20, 0x22, 0x74, 0x72, 0x61, 0x6e, 0x73,
      0x61, 0x63, 0x74, 0x69, 0x6f, 0x6e, 0x73, 0x22, 0x3a, 0x20, 0x5b, 0x5d, 0x7d, 0x30]"
  by (simp add: Blockchain_def new_block_def Let_def block_dict_def encode_basestring_ascii_def escape_char_def float_json_def float_repr_def py_str_def str_int_def str_nat.simps digit_char_def encode_def utf8_char_def)

lemma guess_digest_1349035:
  "sha256
     [0x7b, 0x22, 0x69, 0x6e, 0x64, 0x65, 0x78, 0x22, 0x3a, 0x20, 0x31, 0x2c, 0x20, 0x22, 0x70, 0x72,
      0x65, 0x76, 0x69, 0x6f, 0x75, 0x73, 0x5f, 0x68, 0x61, 0x73, 0x68, 0x22, 0x3a, 0x20, 0x31, 0x2c,
      0x20, 0x22, 0x70, 0x72, 0x6f, 0x6f, 0x66, 0x22, 0x3a, 0x20, 0x31, 0x30, 0x30, 0x2c, 0x20, 0x22,
      0x74, 0x69, 0x6d, 0x65, 0x73, 0x74, 0x61, 0x6d, 0x70, 0x22, 0x3a, 0x20, 0x31, 0x35, 0x34, 0x31,
      0x33, 0x34, 0x39, 0x32, 0x38, 0x33, 0x2e, 0x35, 0x2c, 0x20, 0x22, 0x74, 0x72, 0x61, 0x6e, 0x73,
      0x61, 0x63, 0x74, 0x69, 0x6f, 0x6e, 0x73, 0x22, 0x3a, 0x20, 0x5b, 0x5d, 0x7d, 0x31, 0x33, 0x34,
      0x39, 0x30, 0x33, 0x35] =
     [0x00, 0x00, 0x00, 0x4c, 0x28, 0x1b, 0x07, 0xfb, 0x6a, 0xf0, 0x91, 0xe3, 0x4b, 0x0f, 0x7d, 0x41,
      0xc5, 0x37, 0x34, 0x49, 0x85, 0x0d, 0xb1, 0x3a, 0xac, 0xfa, 0x57, 0x95, 0x96, 0x9d, 0x03, 0x1f]"
  by code_simp

lemma guess_digest_0:
  "sha256
     [0x7b, 0x22, 0x69, 0x6e, 0x64, 0x65, 0x78, 0x22, 0x3a, 0x20, 0x31, 0x2c, 0x20, 0x22, 0x70, 0x72,
      0x65, 0x76, 0x69, 0x6f, 0x75, 0x73, 0x5f, 0x68, 0x61, 0x73, 0x68, 0x22, 0x3a, 0x20, 0x31, 0x2c,
      0x20, 0x22, 0x70, 0x72, 0x6f, 0x6f, 0x66, 0x22, 0x3a, 0x20, 0x31, 0x30, 0x30, 0x2c, 0x20, 0x22,
      0x74, 0x69, 0x6d, 0x65, 0x73, 0x74, 0x61, 0x6d, 0x70, 0x22, 0x3a, 0x20, 0x31, 0x35, 0x34, 0x31,
      0x33, 0x34, 0x39, 0x32, 0x38, 0x33, 0x2e, 0x35, 0x2c, 0x20, 0x22, 0x74, 0x72, 0x61, 0x6e, 0x73,
      0x61, 0x63, 0x74, 0x69, 0x6f, 0x6e, 0x73, 0x22, 0x3a, 0x20, 0x5b, 0x5d, 0x7d, 0x30] =
     [0x96, 0xc6, 0x4c, 0x86, 0x5b, 0xe6, 0xea, 0x8c, 0x3b, 0x4c, 0x56, 0xa0, 0x1f, 0x9a, 0xc0, 0x5a,
      0x35, 0xa7, 0x46, 0x3c, 0xfb, 0xdb, 0xde, 0xc0, 0xa1, 0xcf, 0xbe, 0x26, 0xad, 0xe4, 0x03, 0x79]"
  by code_simp

lemma genesis_proof_valid:
  "valid_proof (dumps (block_dict (last (chain (Blockchain (Float_repr ''1541349283.5'')))))) (PInt 1349035)"
  unfolding valid_proof_def Let_def guess_bytes_1349035 guess_digest_1349035
  by (simp add: hexdigest_def hex_byte_def hex_digit_def)

lemma genesis_proof_invalid:
  "\<not> valid_proof (dumps (block_dict (last (chain (Blockchain (Float_repr ''1541349283.5'')))))) (PInt 0)"
  unfolding valid_proof_def Let_def guess_bytes_0 guess_digest_0
  by (simp add: hexdigest_def hex_byte_def hex_digit_def)

text \<open>The hash of that genesis block, as Python computes it.\<close>

lemma genesis_bytes:
  "encode (dumps (block_dict (last (chain (Blockchain (Float_repr ''1541349283.5'')))))) =
     [0x7b, 0x22, 0x69, 0x6e, 0x64, 0x65, 0x78, 0x22, 0x3a, 0x20, 0x31, 0x2c, 0x20, 0x22, 0x70, 0x72,
      0x65, 0x76, 0x69, 0x6f, 0x75, 0x73, 0x5f, 0x68, 0x61, 0x73, 0x68, 0x22, 0x3a, 0x20, 0x31, 0x2c,
      0x20, 0x22, 0x70, 0x72, 0x6f, 0x6f, 0x66, 0x22, 0x3a, 0x20, 0x31, 0x30, 0x30, 0x2c, 0x20, 0x22,
      0x74, 0x69, 0x6d, 0x65, 0x73, 0x74, 0x61, 0x6d, 0x70, 0x22, 0x3a, 0x20, 0x31, 0x35, 0x34, 0x31,
      0x33, 0x34, 0x39, 0x32, 0x38, 0x33, 0x2e, 0x35, 0x2c, 0x20, 0x22, 0x74, 0x72, 0x61, 0x6e, 0x73,
      0x61, 0x63, 0x74, 0x69, 0x6f, 0x6e, 0x73, 0x22, 0x3a, 0x20, 0x5b, 0x5d, 0x7d]"
  by (simp add: Blockchain_def new_block_def Let_def block_dict_def encode_basestring_ascii_def escape_char_def float_json_def float_repr_def py_str_def str_int_def str_nat.simps digit_char_def encode_def utf8_char_def)

lemma genesis_digest:
  "sha256
     [0x7b, 0x22, 0x69, 0x6e, 0x64, 0x65, 0x78, 0x22, 0x3a, 0x20, 0x31, 0x2c, 0x20, 0x22, 0x70, 0x72,
      0x65, 0x76, 0x69, 0x6f, 0x75, 0x73, 0x5f, 0x68, 0x61, 0x73, 0x68, 0x22, 0x3a, 0x20, 0x31, 0x2c,
      0x20, 0x22, 0x70, 0x72, 0x6f, 0x6f, 0x66, 0x22, 0x3a, 0x20, 0x31, 0x30, 0x30, 0x2c, 0x20, 0x22,
      0x74, 0x69, 0x6d, 0x65, 0x73, 0x74, 0x61, 0x6d, 0x70, 0x22, 0x3a, 0x20, 0x31, 0x35, 0x34, 0x31,
      0x33, 0x34, 0x39, 0x32, 0x38, 0x33, 0x2e, 0x35, 0x2c, 0x20, 0x22, 0x74, 0x72, 0x61, 0x6e, 0x73,
      0x61, 0x63, 0x74, 0x69, 0x6f, 0x6e, 0x73, 0x22, 0x3a, 0x20, 0x5b, 0x5d, 0x7d] =
     [0xac, 0x86, 0x4a, 0x74, 0xaf, 0xbd, 0x6e, 0xb6, 0xe2, 0xb9, 0xb8, 0x9b, 0x08, 0x49, 0x4f, 0x99,
      0x13, 0xca, 0xdd, 0x45, 0xcd, 0x4b, 0x9d, 0xa0, 0xa2, 0x38, 0x69, 0xaa, 0x67, 0x1a, 0x90, 0x23]"
  by code_simp

lemma genesis_hash:
  "hash (block_dict (last (chain (Blockchain (Float_repr ''1541349283.5''))))) =
     ''ac864a74afbd6eb6e2b9b89b08494f9913cadd45cd4b9da0a23869aa671a9023''"
  unfolding hash_def genesis_bytes genesis_digest
  by (simp add: hexdigest_def hex_byte_def hex_digit_def)

text \<open>The digest of the three bytes of \<^verbatim>\<open>abc\<close>, the first example of the standard.\<close>

lemma sha256_abc:
  "hexdigest (sha256 (encode ''abc'')) =
     ''ba7816bf8f01cfea414140de5dae2223b00361a396177a9cb410ff61f20015ad''"
  by code_simp

section \<open>Indices\<close>

lemma indexed_append:
  "indexed bs \<Longrightarrow> index b = int (length bs) + 1 \<Longrightarrow> indexed (bs @ [b])"
  by (simp add: indexed_def)

lemma indexed_step: "indexed (chain self) \<Longrightarrow> indexed (chain (step self c))"
proof (cases c)
  case (New_block now pf prev)
  assume "indexed (chain self)"
  then show ?thesis
    using New_block by (simp add: new_block_def Let_def indexed_append)
next
  case (New_transaction s r a)
  assume "indexed (chain self)"
  then show ?thesis
    using New_transaction by (simp add: new_transaction_def Let_def split: sum.splits)
next
  case (Mine now data)
  assume "indexed (chain self)"
  then show ?thesis
    using Mine chain_mine [of now data self] by (auto simp: indexed_append)
qed

lemma indexed_run: "indexed (chain self) \<Longrightarrow> indexed (chain (run ops self))"
  unfolding run_def by (induction ops arbitrary: self) (simp_all add: indexed_step)

lemma indexed_Blockchain: "indexed (chain (Blockchain now))"
  by (simp add: Blockchain_def new_block_def Let_def indexed_def)

lemma length_run_new_blocks:
  "length (chain (run (map (\<lambda>(t, p, h). New_block t p h) calls) self)) =
     length (chain self) + length calls"
  unfolding run_def
  by (induction calls arbitrary: self) (simp_all add: new_block_def Let_def split: prod.splits)

text \<open>
  C6. Every operation keeps the indices of the chain equal to the positions counted
  from 1: this holds in the ledger reached from a fresh one by any sequence of
  \<open>new_block\<close>, \<open>new_transaction\<close> and \<open>mine\<close> calls. After \<open>N\<close> calls of \<open>new_block\<close> on a
  fresh ledger the chain has \<open>N + 1\<close> blocks, with the indices 1 to \<open>N + 1\<close> in order.
\<close>

theorem index_invariant:
  "indexed (chain (run ops (Blockchain now)))
   \<and> length (chain (run (map (\<lambda>(t, p, h). New_block t p h) calls) (Blockchain now))) =
       length calls + 1
   \<and> map index (chain (run (map (\<lambda>(t, p, h). New_block t p h) calls) (Blockchain now))) =
       map int [1..<length calls + 2]"
proof -
  let ?s = "run (map (\<lambda>(t, p, h). New_block t p h) calls) (Blockchain now)"
  have len: "length (chain ?s) = length calls + 1"
    by (simp add: length_run_new_blocks) (simp add: Blockchain_def new_block_def Let_def)
  have "indexed (chain ?s)"
    by (rule indexed_run [OF indexed_Blockchain])
  then have "map index (chain ?s) = map int [1..<length calls + 2]"
    by (simp add: indexed_def len)
  with len indexed_run [OF indexed_Blockchain] show ?thesis
    by blast
qed

theorem index_invariant_witness:
  "map index (chain (run [New_transaction (PStr ''alice'') (PStr ''bob'') (PInt 5),
                           Mine (Float_repr ''1541349290.25'')
                             (PDict [(''proof'', PInt 1349035), (''id'', PStr ''node123'')]),
                           New_block (Float_repr ''1541349300.0'') (PInt 7) None]
                      (Blockchain (Float_repr ''1541349283.5'')))) = [1, 2, 3]
   \<and> map index (chain (run (map (\<lambda>(t, p, h). New_block t p h)
                              [(Float_repr ''1541349290.25'', PInt 7, Some (PStr ''abc'')),
                               (Float_repr ''1541349300.0'', PInt 8, None)])
                      (Blockchain (Float_repr ''1541349283.5'')))) = [1, 2, 3]"
proof -
  let ?s = "Blockchain (Float_repr ''1541349283.5'')"
  let ?t = "Float_repr ''1541349290.25''"
  let ?kvs = "[(''proof'', PInt 1349035), (''id'', PStr ''node123'')]"
  let ?d = "PDict ?kvs"
  let ?ops = "[New_transaction (PStr ''alice'') (PStr ''bob'') (PInt 5), Mine ?t ?d,
               New_block (Float_repr ''1541349300.0'') (PInt 7) None]"
  let ?calls = "[(Float_repr ''1541349290.25'', PInt 7, Some (PStr ''abc'')),
                 (Float_repr ''1541349300.0'', PInt 8, None)]"
  let ?s1 = "snd (new_transaction (PStr ''alice'') (PStr ''bob'') (PInt 5) ?s)"
  have s1: "chain ?s1 = chain ?s"
    by (simp add: new_transaction_def Let_def split: sum.splits)
  then have ne: "chain ?s1 \<noteq> []"
    by (simp add: Blockchain_eval)
  have v: "valid_proof (dumps (block_dict (last (chain ?s1)))) (PInt 1349035)"
    using genesis_proof_valid by (simp only: s1)
  have "map_of ?kvs ''proof'' = Some (PInt 1349035)"
    and "map_of ?kvs ''id'' = Some (PStr ''node123'')"
    by simp_all
  note m = mine_valid [OF this ne v refl, of ?t]
  have "length (chain (snd (mine ?t ?d ?s1))) = Suc (length (chain ?s1))"
    unfolding m by simp
  moreover have "length (chain ?s1) = 1"
    unfolding s1 by (simp add: Blockchain_eval)
  ultimately have "length (chain (snd (mine ?t ?d ?s1))) = 2"
    by (simp only: numeral_2_eq_2 One_nat_def)
  then have len: "length (chain (run ?ops ?s)) = 3"
    by (simp add: run_def new_block_def Let_def)
  from index_invariant [of ?ops "Float_repr ''1541349283.5''" ?calls]
  show ?thesis
    by (simp add: indexed_def len upt_rec)
qed

section \<open>Linkage\<close>

lemma linked_append:
  "linked bs \<Longrightarrow> bs \<noteq> [] \<Longrightarrow> previous_hash b = PStr (hash (block_dict (last bs))) \<Longrightarrow>
   linked (bs @ [b])"
  by (induction bs rule: linked.induct) simp_all

lemma linked_mine:
  "chain self \<noteq> [] \<Longrightarrow> linked (chain self) \<Longrightarrow>
   chain (snd (mine now data self)) \<noteq> [] \<and> linked (chain (snd (mine now data self)))"
  using chain_mine [of now data self] by (auto simp: linked_append)

lemma linked_run:
  "chain self \<noteq> [] \<Longrightarrow> linked (chain self) \<Longrightarrow>
   chain (run (map (\<lambda>(t, d). Mine t d) reqs) self) \<noteq> []
   \<and> linked (chain (run (map (\<lambda>(t, d). Mine t d) reqs) self))"
  unfolding run_def
proof (induction reqs arbitrary: self)
  case Nil
  then show ?case by simp
next
  case (Cons q reqs)
  obtain t d where q: "q = (t, d)" by (cases q)
  from linked_mine [OF Cons.prems, of t d] Cons.IH [of "snd (mine t d self)"]
  show ?case by (simp add: q)
qed

text \<open>
  C3. In every ledger reached from a fresh one by mine requests, every block but the
  genesis block holds, as its previous hash, the hash of the block before it. A block
  in the chain is never changed after its creation, so the block before it is the
  block as it was when the next one was created.
\<close>

theorem chain_linkage:
  "linked (chain (run (map (\<lambda>(t, d). Mine t d) reqs) (Blockchain now)))"
proof -
  have "chain (Blockchain now) \<noteq> []" and "linked (chain (Blockchain now))"
    by (simp_all add: Blockchain_def new_block_def Let_def)
  then show ?thesis
    using linked_run by blast
qed

theorem chain_linkage_witness:
  "length (chain (run [Mine (Float_repr ''1541349290.25'')
                        (PDict [(''proof'', PInt 1349035), (''id'', PStr ''node123'')])]
                   (Blockchain (Float_repr ''1541349283.5'')))) = 2
   \<and> previous_hash
        (chain (run [Mine (Float_repr ''1541349290.25'')
                       (PDict [(''proof'', PInt 1349035), (''id'', PStr ''node123'')])]
                  (Blockchain (Float_repr ''1541349283.5''))) ! 1) =
       PStr (hash (block_dict
         (chain (run [Mine (Float_repr ''1541349290.25'')
                        (PDict [(''proof'', PInt 1349035), (''id'', PStr ''node123'')])]
                   (Blockchain (Float_repr ''1541349283.5''))) ! 0)))"
proof -
  let ?s = "Blockchain (Float_repr ''1541349283.5'')"
  let ?t = "Float_repr ''1541349290.25''"
  let ?kvs = "[(''proof'', PInt 1349035), (''id'', PStr ''node123'')]"
  let ?d = "PDict ?kvs"
  have ne: "chain ?s \<noteq> []"
    by (simp add: Blockchain_eval)
  have "map_of ?kvs ''proof'' = Some (PInt 1349035)"
    and "map_of ?kvs ''id'' = Some (PStr ''node123'')"
    by simp_all
  from mine_valid [OF this ne genesis_proof_valid refl, of ?t]
  have "\<exists>a b. chain (run [Mine ?t ?d] ?s) = [a, b]"
    by (simp add: run_def Blockchain_eval)
  then obtain a b where ab: "chain (run [Mine ?t ?d] ?s) = [a, b]"
    by blast
  from chain_linkage [of "[(?t, ?d)]" "Float_repr ''1541349283.5''"]
  have "linked (chain (run [Mine ?t ?d] ?s))"
    by simp
  with ab show ?thesis
    by simp
qed

section \<open>Mining\<close>

text \<open>
  C7. On a mine request with both fields and a valid proof, on a ledger with a block in
  its chain, the reward, from sender \<^verbatim>\<open>"0"\<close> to the submitted id with amount 1, is queued
  only after the new block is sealed: the transactions of the returned block are the
  pending transactions as they stood before the request, and the reward is appended
  afterwards to the new list of pending transactions. So the reward is not in the
  returned block; it is the one pending transaction after the request, and the next
  block created takes it. The endpoint answers 200 with the index, the transactions,
  the proof and the previous hash of the new block.
\<close>

theorem mine_success:
  assumes "map_of kvs ''proof'' = Some p" and "map_of kvs ''id'' = Some r"
    and "chain self \<noteq> []"
    and "valid_proof (dumps (block_dict (last (chain self)))) p"
  shows "mine now (PDict kvs) self =
     (Inr (PDict [(''message'', PStr ''Congratulation! New block is found''),
                  (''index'', PInt (int (length (chain self)) + 1)),
                  (''transactions'', PList (map transaction_dict (current_transactions self))),
                  (''proof'', p),
                  (''previous_hash'', PStr (hash (block_dict (last (chain self)))))],
           200),
      self\<lparr>current_transactions := [\<lparr>sender = PStr ''0'', recipient = r, amount = PInt 1\<rparr>],
            chain := chain self @
              [\<lparr>index = int (length (chain self)) + 1, proof_of = p, timestamp = now,
                transactions = current_transactions self,
                previous_hash = PStr (hash (block_dict (last (chain self))))\<rparr>]\<rparr>)
   \<and> transactions (last (chain (snd (mine now (PDict kvs) self)))) = current_transactions self
   \<and> current_transactions (snd (mine now (PDict kvs) self)) =
       [\<lparr>sender = PStr ''0'', recipient = r, amount = PInt 1\<rparr>]
   \<and> transactions (fst (new_block now' prf' prev' (snd (mine now (PDict kvs) self)))) =
       [\<lparr>sender = PStr ''0'', recipient = r, amount = PInt 1\<rparr>]"
proof -
  have m: "mine now (PDict kvs) self =
     (Inr (PDict [(''message'', PStr ''Congratulation! New block is found''),
                  (''index'', PInt (int (length (chain self)) + 1)),
                  (''transactions'', PList (map transaction_dict (current_transactions self))),
                  (''proof'', p),
                  (''previous_hash'', PStr (hash (block_dict (last (chain self)))))],
           200),
      self\<lparr>current_transactions := [\<lparr>sender = PStr ''0'', recipient = r, amount = PInt 1\<rparr>],
            chain := chain self @
              [\<lparr>index = int (length (chain self)) + 1, proof_of = p, timestamp = now,
                transactions = current_transactions self,
                previous_hash = PStr (hash (block_dict (last (chain self))))\<rparr>]\<rparr>)"
    using assms by (rule mine_valid) (rule refl)
  show ?thesis
    unfolding m by (simp add: new_block_def Let_def)
qed

theorem mine_success_witness:
  "fst (mine (Float_repr ''1541349290.25'')
         (PDict [(''proof'', PInt 1349035), (''id'', PStr ''node123'')])
         (Blockchain (Float_repr ''1541349283.5''))) =
     Inr (PDict [(''message'', PStr ''Congratulation! New block is found''),
                 (''index'', PInt 2),
                 (''transactions'', PList []),
                 (''proof'', PInt 1349035),
                 (''previous_hash'',
                    PStr ''ac864a74afbd6eb6e2b9b89b08494f9913cadd45cd4b9da0a23869aa671a9023'')],
          200)
   \<and> length (chain (snd (mine (Float_repr ''1541349290.25'')
                            (PDict [(''proof'', PInt 1349035), (''id'', PStr ''node123'')])
                            (Blockchain (Float_repr ''1541349283.5''))))) = 2
   \<and> transactions (last (chain (snd (mine (Float_repr ''1541349290.25'')
                            (PDict [(''proof'', PInt 1349035), (''id'', PStr ''node123'')])
                            (Blockchain (Float_repr ''1541349283.5'')))))) = []
   \<and> current_transactions (snd (mine (Float_repr ''1541349290.25'')
                                  (PDict [(''proof'', PInt 1349035), (''id'', PStr ''node123'')])
                                  (Blockchain (Float_repr ''1541349283.5'')))) =
       [\<lparr>sender = PStr ''0'', recipient = PStr ''node123'', amount = PInt 1\<rparr>]"
proof -
  let ?s = "Blockchain (Float_repr ''1541349283.5'')"
  let ?kvs = "[(''proof'', PInt 1349035), (''id'', PStr ''node123'')]"
  have ne: "chain ?s \<noteq> []"
    by (simp add: Blockchain_def new_block_def Let_def)
  have len: "length (chain ?s) = 1" and cur: "current_transactions ?s = []"
    by (simp_all add: Blockchain_def new_block_def Let_def)
  have "map_of ?kvs ''proof'' = Some (PInt 1349035)"
    and "map_of ?kvs ''id'' = Some (PStr ''node123'')"
    by simp_all
  from mine_success [OF this ne genesis_proof_valid, of "Float_repr ''1541349290.25''"]
  show ?thesis
    by (simp add: len cur genesis_hash)
qed

section \<open>Rejected requests\<close>

text \<open>
  A request whose body is a JSON object: when the object lacks the field \<^verbatim>\<open>proof\<close> or the
  field \<^verbatim>\<open>id\<close>, the answer is the message that fields are missing, with the status 400;
  when it has both and the proof fails \<open>valid_proof\<close> against the last block, the answer
  is the message to try again, with the status 200. The ledger is what it was.
\<close>

lemma mine_rejections:
  "(map_of kvs ''proof'' = None \<or> map_of kvs ''id'' = None \<longrightarrow>
      mine now (PDict kvs) self =
        (Inr (PDict [(''message'', PStr ''Missing required fields.'')], 400), self))
   \<and> (map_of kvs ''proof'' = Some p \<and> map_of kvs ''id'' = Some r \<and> chain self \<noteq> []
        \<and> \<not> valid_proof (dumps (block_dict (last (chain self)))) p \<longrightarrow>
      mine now (PDict kvs) self =
        (Inr (PDict [(''message'', PStr ''Invalid Proof. Unsuccessful Try again.'')], 200), self))"
  using mine_missing [of kvs now self] mine_invalid [of kvs p r self now] by blast

lemma mine_rejections_example:
  "mine (Float_repr ''1541349290.25'') (PDict [(''proof'', PInt 42)])
      (Blockchain (Float_repr ''1541349283.5'')) =
     (Inr (PDict [(''message'', PStr ''Missing required fields.'')], 400),
      Blockchain (Float_repr ''1541349283.5''))
   \<and> mine (Float_repr ''1541349290.25'') (PDict [(''proof'', PInt 0), (''id'', PStr ''node123'')])
        (Blockchain (Float_repr ''1541349283.5'')) =
       (Inr (PDict [(''message'', PStr ''Invalid Proof. Unsuccessful Try again.'')], 200),
        Blockchain (Float_repr ''1541349283.5''))"
proof -
  let ?s = "Blockchain (Float_repr ''1541349283.5'')"
  let ?t = "Float_repr ''1541349290.25''"
  have ne: "chain ?s \<noteq> []"
    by (simp add: Blockchain_def new_block_def Let_def)
  show ?thesis
    using mine_rejections [of "[(''proof'', PInt 42)]" ?t ?s "PInt 0" "PStr ''x''"]
      mine_rejections [of "[(''proof'', PInt 0), (''id'', PStr ''node123'')]" ?t ?s
        "PInt 0" "PStr ''node123''"]
      ne genesis_proof_invalid
    by simp
qed

text \<open>
  C8. A request whose body is not a JSON object has neither field, yet it is not
  answered with the message that fields are missing and the status 400. For the list
  of the two names, and for a string that has both names in it, the check of the fields
  passes and \<^verbatim>\<open>data['proof']\<close> raises \<^verbatim>\<open>TypeError\<close>; for \<^verbatim>\<open>null\<close> and for a number the check
  itself raises \<^verbatim>\<open>TypeError\<close>. The ledger is what it was.
\<close>

theorem mine_body_not_object:
  "mine now (PList [PStr ''proof'', PStr ''id'']) self = (Inl TypeError, self)
   \<and> mine now (PStr ''proofid'') self = (Inl TypeError, self)
   \<and> mine now PNone self = (Inl TypeError, self)
   \<and> mine now (PInt 7) self = (Inl TypeError, self)"
  by (simp add: mine_def)

end
